theory Spec2Isabelle
  imports Complex_Main "HOL-Library.Multiset" "HOL-Library.Sublist"
begin

section \<open>The HTR inference pipeline of \<^verbatim>\<open>src/htr_pipeline/inferencer.py\<close>\<close>

text \<open>
  The class \<^verbatim>\<open>Inferencer\<close> orchestrates two segmentation stages (regions of a page, lines
  of a region) and a transcription step. Everything it calls lives outside the file:
  the segmentation models, \<^verbatim>\<open>Preprocess\<close>, \<^verbatim>\<open>FilterSegMask\<close>, \<^verbatim>\<open>SegMaskHelper\<close>,
  \<^verbatim>\<open>OrderObject\<close>, \<^verbatim>\<open>mmcv\<close> and the transformers library. The embedding takes these
  collaborators as parameters. Each of them may raise, so each returns a value of
  \<open>error + 'a\<close>; the orchestrator logs every collaborator call, with the arguments it
  passes, so that the order of the calls and the data flow between them can be stated.

  Python floats are modelled as reals: the orchestrator only passes thresholds on and
  returns the constant \<^verbatim>\<open>1.0\<close>; it performs no floating-point arithmetic of its own.
\<close>

subsection \<open>Errors and Python indexing\<close>

datatype error =
    GrError string \<comment> \<open>\<^verbatim>\<open>gr.Error(message)\<close>, raised by the orchestrator itself\<close>
  | IndexError \<comment> \<open>a sequence index out of range\<close>
  | KeyError \<comment> \<open>a missing dictionary key\<close>
  | Raised string \<comment> \<open>an exception propagating out of a collaborator, by its class name\<close>

definition external :: "string + 'a \<Rightarrow> error + 'a" where
  \<comment> \<open>the outcome of a collaborator call, as the orchestrator sees it: the exception
     propagates unchanged, and is told apart from the orchestrator's own\<close>
  "external r = (case r of Inl name \<Rightarrow> Inl (Raised name) | Inr a \<Rightarrow> Inr a)"

definition py_index :: "'a list \<Rightarrow> int \<Rightarrow> error + 'a" where
  \<comment> \<open>\<^verbatim>\<open>xs[i]\<close>: positions \<open>0 .. len - 1\<close> from the front, \<open>-len .. -1\<close> from the back,
     anything else raises\<close>
  "py_index xs i =
     (if 0 \<le> i \<and> i < int (length xs) then Inr (xs ! nat i)
      else if - int (length xs) \<le> i \<and> i < 0 then Inr (xs ! nat (int (length xs) + i))
      else Inl IndexError)"

fun index_all :: "'a list \<Rightarrow> int list \<Rightarrow> error + 'a list" where
  \<comment> \<open>\<^verbatim>\<open>[xs[i] for i in order]\<close>: the first failing index raises.\<close>
  "index_all xs [] = Inr []"
| "index_all xs (i # is) =
     (case py_index xs i of
        Inl e \<Rightarrow> Inl e
      | Inr x \<Rightarrow> (case index_all xs is of Inl e \<Rightarrow> Inl e | Inr ys \<Rightarrow> Inr (x # ys)))"

definition py_getitem :: "('k \<rightharpoonup> 'v) \<Rightarrow> 'k \<Rightarrow> error + 'v" where
  \<comment> \<open>\<^verbatim>\<open>d[k]\<close> on a dictionary.\<close>
  "py_getitem d k = (case d k of None \<Rightarrow> Inl KeyError | Some v \<Rightarrow> Inr v)"

subsection \<open>Predictions\<close>

text \<open>
  A prediction is a data sample whose \<^verbatim>\<open>pred_instances.masks\<close> is the sequence of
  instance masks; the orchestrator reads nothing else of it. A model call returns a
  dictionary whose entry \<^verbatim>\<open>"predictions"\<close> is a list of data samples.
\<close>

record 'm InstanceData =
  masks :: "'m list"

record 'm DetDataSample =
  pred_instances :: "'m InstanceData"

type_synonym 'm response = "string \<rightharpoonup> 'm DetDataSample list"

definition first_prediction :: "'m response \<Rightarrow> error + 'm DetDataSample" where
  \<comment> \<open>\<^verbatim>\<open>result["predictions"][0]\<close>\<close>
  "first_prediction result =
     (case py_getitem result ''predictions'' of
        Inl e \<Rightarrow> Inl e
      | Inr ps \<Rightarrow> py_index ps 0)"

subsection \<open>Collaborators and the log of their calls\<close>

record ('i, 'm, 'c, 'g, 'v) collaborators =
  binarize_img :: "'i \<Rightarrow> string + 'i"
  imread :: "'i \<Rightarrow> string + 'i"
  seg_model :: "'i \<Rightarrow> string + 'm response"
  line_model :: "'i \<Rightarrow> string + 'm response"
  seg_model_visualize :: "'i list \<Rightarrow> 'm DetDataSample list \<Rightarrow> string + 'v list"
  filter_on_pred_threshold :: "'m DetDataSample \<Rightarrow> real \<Rightarrow> string + 'm DetDataSample"
  align_masks_with_image :: "'m DetDataSample \<Rightarrow> 'i \<Rightarrow> string + 'm DetDataSample"
  remove_overlapping_masks :: "'m DetDataSample \<Rightarrow> real \<Rightarrow> string + 'm DetDataSample"
  crop_masks :: "'m DetDataSample \<Rightarrow> 'i \<Rightarrow> string + ('c list \<times> 'g list)"
  order_regions_marginalia :: "'m DetDataSample \<Rightarrow> string + int list"
  order_lines :: "'m DetDataSample \<Rightarrow> real \<Rightarrow> string + int list"

datatype ('i, 'm) event =
    Binarize 'i
  | Imread 'i
  | SegModel 'i
  | LineModel 'i
  | FilterOnPredThreshold "'m DetDataSample" real
  | AlignMasksWithImage "'m DetDataSample" 'i
  | RemoveOverlappingMasks "'m DetDataSample" real
  | Visualize "'i list" "'m DetDataSample list"
  | CropMasks "'m DetDataSample" 'i
  | OrderRegionsMarginalia "'m DetDataSample"
  | OrderLines "'m DetDataSample" real

type_synonym ('e, 'a) run = "'e list \<times> (error + 'a)"

definition ret :: "'a \<Rightarrow> ('e, 'a) run" where
  "ret a = ([], Inr a)"

definition raise :: "error \<Rightarrow> ('e, 'a) run" where
  "raise e = ([], Inl e)"

definition lift :: "error + 'a \<Rightarrow> ('e, 'a) run" where
  \<comment> \<open>a computation of the orchestrator's own: nothing is logged\<close>
  "lift r = ([], r)"

definition call :: "'e \<Rightarrow> string + 'a \<Rightarrow> ('e, 'a) run" where
  \<comment> \<open>a collaborator call: logged, then its result or its exception\<close>
  "call ev r = ([ev], external r)"

definition and_then :: "('e, 'a) run \<Rightarrow> ('a \<Rightarrow> ('e, 'b) run) \<Rightarrow> ('e, 'b) run" where
  \<comment> \<open>sequencing: an exception ends the run, the log so far is kept\<close>
  "and_then m f =
     (case m of
        (t, Inl e) \<Rightarrow> (t, Inl e)
      | (t, Inr a) \<Rightarrow> (case f a of (t', r) \<Rightarrow> (t @ t', r)))"

subsection \<open>\<^verbatim>\<open>Inferencer.predict_regions\<close> and \<^verbatim>\<open>Inferencer.predict_lines\<close>\<close>

definition visualize_with ::
  "('i, 'm, 'c, 'g, 'v) collaborators \<Rightarrow> bool \<Rightarrow> 'i \<Rightarrow> 'm DetDataSample \<Rightarrow>
     (('i, 'm) event, 'v option) run" where
  \<comment> \<open>the \<^verbatim>\<open>if visualize: ... else: result_viz = None\<close> block, the same in both stages
     (both call \<^verbatim>\<open>self.seg_model.visualize\<close>)\<close>
  "visualize_with C visualize img result_clean =
     (if visualize then
        and_then (call (Visualize [img] [result_clean])
                    (seg_model_visualize C [img] [result_clean])) (\<lambda>vs.
        and_then (lift (py_index vs 0)) (\<lambda>v.
        ret (Some v)))
      else ret None)"

definition predict_regions ::
  "('i, 'm, 'c, 'g, 'v) collaborators \<Rightarrow> 'i \<Rightarrow> real \<Rightarrow> real \<Rightarrow> bool \<Rightarrow>
     (('i, 'm) event, 'v option \<times> 'c list \<times> 'g list \<times> 'm list) run" where
  "predict_regions C input_image pred_score_threshold containments_threshold visualize =
     and_then (call (Binarize input_image) (binarize_img C input_image)) (\<lambda>binarized.
     and_then (call (Imread binarized) (imread C binarized)) (\<lambda>img.
     and_then (call (SegModel img) (seg_model C img)) (\<lambda>result.
     and_then (lift (first_prediction result)) (\<lambda>result_pred.
     and_then (call (FilterOnPredThreshold result_pred pred_score_threshold)
                 (filter_on_pred_threshold C result_pred pred_score_threshold))
       (\<lambda>filtered_result_pred.
     if length (masks (pred_instances filtered_result_pred)) = 0 then
       raise (GrError ''No Regions were predicted by the model'')
     else
       and_then (call (AlignMasksWithImage filtered_result_pred img)
                   (align_masks_with_image C filtered_result_pred img)) (\<lambda>result_align.
       and_then (call (RemoveOverlappingMasks result_align containments_threshold)
                   (remove_overlapping_masks C result_align containments_threshold))
         (\<lambda>result_clean.
       and_then (visualize_with C visualize img result_clean) (\<lambda>result_viz.
       and_then (call (CropMasks result_clean img) (crop_masks C result_clean img))
         (\<lambda>(regions_cropped, polygons).
       and_then (call (OrderRegionsMarginalia result_clean)
                   (order_regions_marginalia C result_clean)) (\<lambda>order.
       and_then (lift (index_all regions_cropped order)) (\<lambda>regions_cropped_ordered.
       and_then (lift (index_all polygons order)) (\<lambda>polygons_ordered.
       and_then (lift (index_all (masks (pred_instances result_clean)) order))
         (\<lambda>masks_ordered.
       ret (result_viz, regions_cropped_ordered, polygons_ordered, masks_ordered))))))))))))))"

definition predict_lines ::
  "('i, 'm, 'c, 'g, 'v) collaborators \<Rightarrow> 'i \<Rightarrow> real \<Rightarrow> real \<Rightarrow> real \<Rightarrow> bool \<Rightarrow> bool \<Rightarrow>
     (('i, 'm) event, 'v option \<times> 'c list option \<times> 'g list option) run" where
  \<comment> \<open>\<^verbatim>\<open>None, None, None\<close> is the triple of three absent values\<close>
  "predict_lines C img pred_score_threshold containments_threshold line_spacing_factor
       visualize custom_track =
     and_then (call (LineModel img) (line_model C img)) (\<lambda>result_tl.
     and_then (lift (first_prediction result_tl)) (\<lambda>result_tl_pred.
     and_then (call (FilterOnPredThreshold result_tl_pred pred_score_threshold)
                 (filter_on_pred_threshold C result_tl_pred pred_score_threshold))
       (\<lambda>filtered_result_tl_pred.
     if length (masks (pred_instances filtered_result_tl_pred)) = 0 \<and> custom_track then
       raise (GrError ''No Lines were predicted by the model'')
     else if length (masks (pred_instances filtered_result_tl_pred)) = 0 \<and> \<not> custom_track then
       ret (None, None, None)
     else
       and_then (call (AlignMasksWithImage filtered_result_tl_pred img)
                   (align_masks_with_image C filtered_result_tl_pred img))
         (\<lambda>result_tl_align.
       and_then (call (RemoveOverlappingMasks result_tl_align containments_threshold)
                   (remove_overlapping_masks C result_tl_align containments_threshold))
         (\<lambda>result_tl_clean.
       and_then (visualize_with C visualize img result_tl_clean) (\<lambda>result_viz.
       and_then (call (CropMasks result_tl_clean img) (crop_masks C result_tl_clean img))
         (\<lambda>(lines_cropped, lines_polygons).
       and_then (call (OrderLines result_tl_clean line_spacing_factor)
                   (order_lines C result_tl_clean line_spacing_factor)) (\<lambda>ordered_indices.
       and_then (lift (index_all lines_cropped ordered_indices)) (\<lambda>lines_cropped_ordered.
       and_then (lift (index_all lines_polygons ordered_indices))
         (\<lambda>lines_polygons_ordered.
       ret (result_viz, Some lines_cropped_ordered, Some lines_polygons_ordered)))))))))))"

subsection \<open>\<^verbatim>\<open>Inferencer.transcribe_different_model\<close>\<close>

text \<open>
  The transformers classes are collaborators too. \<^verbatim>\<open>.to(device)\<close> moves a tensor or a
  model to a device and leaves its value alone; it is not modelled.
\<close>

record ('i, 'tp, 'ip, 'md, 'px, 'ids) transformers =
  trocr_from_pretrained :: "string \<Rightarrow> string + 'tp"
  auto_image_from_pretrained :: "string \<Rightarrow> string + 'ip"
  ved_from_pretrained :: "string \<Rightarrow> string + 'md"
  trocr_pixel_values :: "'tp \<Rightarrow> 'i \<Rightarrow> string + 'px"
  image_processor_pixel_values :: "'ip \<Rightarrow> 'i \<Rightarrow> string + 'px"
  generate :: "'md \<Rightarrow> 'px \<Rightarrow> string + 'ids"
  batch_decode :: "'tp \<Rightarrow> 'ids \<Rightarrow> string + string list"

definition attempt :: "error + 'a \<Rightarrow> ('a \<Rightarrow> error + 'b) \<Rightarrow> error + 'b" where
  "attempt r f = (case r of Inl e \<Rightarrow> Inl e | Inr a \<Rightarrow> f a)"

definition load_for ::
  "('i, 'tp, 'ip, 'md, 'px, 'ids) transformers \<Rightarrow> 'i \<Rightarrow> string \<Rightarrow> error + ('tp \<times> 'md \<times> 'px)" where
  \<comment> \<open>the \<^verbatim>\<open>if ... == "pstroe/bullinger-general-model": ... else: ...\<close> block\<close>
  "load_for T img htr_tool_transcriber_model_dropdown =
     (if htr_tool_transcriber_model_dropdown = ''pstroe/bullinger-general-model'' then
        attempt (external (trocr_from_pretrained T ''microsoft/trocr-base-handwritten'')) (\<lambda>processor.
        attempt (external (auto_image_from_pretrained T ''pstroe/bullinger-general-model'')) (\<lambda>image_processor.
        attempt (external (ved_from_pretrained T ''pstroe/bullinger-general-model'')) (\<lambda>model.
        attempt (external (image_processor_pixel_values T image_processor img)) (\<lambda>pixel_values.
        Inr (processor, model, pixel_values)))))
      else
        attempt (external (trocr_from_pretrained T htr_tool_transcriber_model_dropdown)) (\<lambda>processor.
        attempt (external (ved_from_pretrained T htr_tool_transcriber_model_dropdown)) (\<lambda>model.
        attempt (external (trocr_pixel_values T processor img)) (\<lambda>pixel_values.
        Inr (processor, model, pixel_values)))))"

definition transcribe_different_model ::
  "('i, 'tp, 'ip, 'md, 'px, 'ids) transformers \<Rightarrow> 'i \<Rightarrow> string \<Rightarrow> error + (string \<times> real)" where
  "transcribe_different_model T img htr_tool_transcriber_model_dropdown =
     attempt (load_for T img htr_tool_transcriber_model_dropdown) (\<lambda>(processor, model, pixel_values).
     attempt (external (generate T model pixel_values)) (\<lambda>generated_ids.
     attempt (external (batch_decode T processor generated_ids)) (\<lambda>decoded.
     attempt (py_index decoded 0) (\<lambda>generated_text.
     Inr (generated_text, 1.0)))))"

section \<open>The components the orchestrator calls, as the specification describes them\<close>

text \<open>
  \<^verbatim>\<open>FilterSegMask\<close> and \<^verbatim>\<open>OrderObject\<close> belong to the repository but not to the files at
  hand. Where a property is about what they compute, they are modelled from the
  specification's description of the corresponding components (MaskFilter,
  OverlapResolver, ReadingOrderEngine). A mask is a finite set of pixels.
\<close>

text \<open>Modelled from the spec: the error taxonomy of section 7, as far as the modelled
  components raise it (the repository's helpers that would raise it are missing).\<close>

datatype spec_error = InvalidThreshold

text \<open>Modelled from the spec: the data model's RawInstance (a mask and a confidence score);
  the instance type of the repository's segmentation helpers is not in the files.\<close>

record RawInstance =
  mask_of :: "(nat \<times> nat) set"
  score :: real

text \<open>Modelled from the spec: MaskFilter.filter of section 4.1 (the repository's
  \<^verbatim>\<open>FilterSegMask.filter_on_pred_threshold\<close> is missing). It keeps the instances with
  \<open>score \<ge> threshold\<close> in their order, and fails fast on a threshold outside \<open>[0,1]\<close>.\<close>

definition MaskFilter_filter :: "RawInstance list \<Rightarrow> real \<Rightarrow> spec_error + RawInstance list" where
  "MaskFilter_filter instances threshold =
     (if 0 \<le> threshold \<and> threshold \<le> 1
      then Inr (filter (\<lambda>i. threshold \<le> score i) instances)
      else Inl InvalidThreshold)"

text \<open>Modelled from the spec: GeometryUtils' area of a mask, the number of its pixels
  (the repository's geometry helpers are missing).\<close>

definition area :: "(nat \<times> nat) set \<Rightarrow> nat" where
  "area m = card m"

text \<open>Modelled from the spec: GeometryUtils' containment ratio \<open>area(A \<inter> B) / area(A)\<close>
  (the repository's geometry helpers are missing). The spec does not say what the
  ratio of an empty mask is; here it is \<open>0\<close>, as division by zero is in HOL.\<close>

definition containment_ratio :: "RawInstance \<Rightarrow> RawInstance \<Rightarrow> real" where
  "containment_ratio a b = real (area (mask_of a \<inter> mask_of b)) / real (area (mask_of a))"

text \<open>Modelled from the spec: the candidates for removal of section 4.2 (missing with
  \<^verbatim>\<open>FilterSegMask.remove_overlapping_masks\<close>): the ordered pairs \<open>(A, B)\<close> of different
  positions with \<open>containment_ratio A B \<ge> threshold\<close>, in which \<open>A\<close> is absorbed by \<open>B\<close>.\<close>

definition absorbed_pairs :: "RawInstance list \<Rightarrow> real \<Rightarrow> (nat \<times> nat) list" where
  "absorbed_pairs xs t =
     filter (\<lambda>(i, j). i \<noteq> j \<and> t \<le> containment_ratio (xs ! i) (xs ! j))
       (List.product [0..<length xs] [0..<length xs])"

text \<open>Modelled from the spec: the tie-break policy of section 4.2 (missing with
  \<^verbatim>\<open>FilterSegMask.remove_overlapping_masks\<close>). The absorbed instance goes; when the
  containment is mutual the smaller area goes, on equal areas the lower confidence,
  and on equal confidence too, which the spec leaves open, the later of the two.\<close>

definition victim :: "RawInstance list \<Rightarrow> real \<Rightarrow> nat \<times> nat \<Rightarrow> nat" where
  "victim xs t p =
     (case p of (i, j) \<Rightarrow>
        let a = xs ! i; b = xs ! j in
        if t \<le> containment_ratio b a then
          if area (mask_of a) < area (mask_of b) then i
          else if area (mask_of b) < area (mask_of a) then j
          else if score a < score b then i
          else if score b < score a then j
          else max i j
        else i)"

text \<open>Modelled from the spec: the removal of one instance, the others keeping their
  relative order (missing with \<^verbatim>\<open>FilterSegMask.remove_overlapping_masks\<close>).\<close>

definition drop_index :: "nat \<Rightarrow> 'a list \<Rightarrow> 'a list" where
  "drop_index k xs = take k xs @ drop (Suc k) xs"

text \<open>Modelled from the spec: OverlapResolver.resolve of section 4.2 (the repository's
  \<^verbatim>\<open>FilterSegMask.remove_overlapping_masks\<close> is missing). One instance is removed per
  round, for the first absorbed pair found, and the survivors are examined again
  until no pair reaches the threshold; each round shortens the sequence, which bounds
  the rounds by the instance count.\<close>

function OverlapResolver_resolve :: "RawInstance list \<Rightarrow> real \<Rightarrow> RawInstance list" where
  "OverlapResolver_resolve xs t =
     (case absorbed_pairs xs t of
        [] \<Rightarrow> xs
      | p # ps \<Rightarrow> OverlapResolver_resolve (drop_index (victim xs t p) xs) t)"
  by pat_completeness auto
termination
proof (relation "measure (\<lambda>(xs, t). length xs)")
  show "wf (measure (\<lambda>(xs :: RawInstance list, t :: real). length xs))"
    by simp
next
  fix xs :: "RawInstance list" and t :: real and p ps
  assume a: "absorbed_pairs xs t = p # ps"
  then have "p \<in> set (absorbed_pairs xs t)"
    by simp
  then have "fst p < length xs \<and> snd p < length xs"
    by (auto simp: absorbed_pairs_def)
  moreover have "victim xs t p = fst p \<or> victim xs t p = snd p"
    by (cases p) (auto simp: victim_def Let_def max_def)
  ultimately have "victim xs t p < length xs"
    by auto
  then show "((drop_index (victim xs t p) xs, t), (xs, t)) \<in> measure (\<lambda>(xs, t). length xs)"
    by (auto simp: drop_index_def)
qed

declare OverlapResolver_resolve.simps [simp del]

text \<open>Modelled from the spec: the geometric measures and heuristics the ReadingOrderEngine
  of section 4.4 relies on (the repository's \<^verbatim>\<open>OrderObject\<close> is missing). The spec names
  the horizontal and vertical centre and the line height of an instance, the
  classification of a region as marginalia and the column a region is clustered
  into, and leaves their computation open; they are parameters here.\<close>

record layout =
  h_center :: "RawInstance \<Rightarrow> real"
  v_center :: "RawInstance \<Rightarrow> real"
  line_height :: "RawInstance \<Rightarrow> real"
  is_marginalia :: "RawInstance list \<Rightarrow> RawInstance \<Rightarrow> bool"
  column_of :: "RawInstance list \<Rightarrow> RawInstance \<Rightarrow> nat"

text \<open>Modelled from the spec: the median line height of line mode (missing with
  \<^verbatim>\<open>OrderObject\<close>); for an even number of lines the mean of the two middle heights.\<close>

definition median :: "real list \<Rightarrow> real" where
  "median hs =
     (let s = sort hs; n = length s in
      if n = 0 then 0
      else if odd n then s ! (n div 2)
      else (s ! (n div 2 - 1) + s ! (n div 2)) / 2)"

text \<open>Modelled from the spec: the banding of line mode (missing with \<^verbatim>\<open>OrderObject\<close>). The
  indices come sorted by vertical centre; a line joins the band of its successor when
  their centres are less than the threshold apart.\<close>

fun group_bands :: "(nat \<Rightarrow> real) \<Rightarrow> real \<Rightarrow> nat list \<Rightarrow> nat list list" where
  "group_bands yc thr [] = []"
| "group_bands yc thr (i # rest) =
     (case group_bands yc thr rest of
        [] \<Rightarrow> [[i]]
      | b # bs \<Rightarrow> if \<bar>yc (hd b) - yc i\<bar> < thr then (i # b) # bs else [i] # b # bs)"

text \<open>Modelled from the spec: the mean vertical centre of a band, by which line mode
  orders the bands (missing with \<^verbatim>\<open>OrderObject\<close>).\<close>

definition band_mean :: "(nat \<Rightarrow> real) \<Rightarrow> nat list \<Rightarrow> real" where
  "band_mean yc b = sum_list (map yc b) / real (length b)"

text \<open>Modelled from the spec: line mode of the ReadingOrderEngine, \<^verbatim>\<open>order_lines\<close> (missing
  with \<^verbatim>\<open>OrderObject\<close>): bands of lines whose vertical centres are closer than
  \<open>line_spacing_factor\<close> times the median line height, each band from left to right,
  the bands from top to bottom by their mean vertical centre.\<close>

definition order_lines_spec :: "layout \<Rightarrow> RawInstance list \<Rightarrow> real \<Rightarrow> nat list" where
  "order_lines_spec L instances line_spacing_factor =
     (let xc = (\<lambda>i. h_center L (instances ! i));
          yc = (\<lambda>i. v_center L (instances ! i));
          thr = line_spacing_factor * median (map (line_height L) instances);
          bands = group_bands yc thr (sort_key yc [0..<length instances])
      in concat (map (sort_key xc) (sort_key (band_mean yc) bands)))"

text \<open>Modelled from the spec: region mode of the ReadingOrderEngine,
  \<^verbatim>\<open>order_regions_marginalia\<close> (missing with \<^verbatim>\<open>OrderObject\<close>): the main text first, column by
  column and from top to bottom within a column, then the marginalia from top to
  bottom.\<close>

definition order_regions_marginalia_spec :: "layout \<Rightarrow> RawInstance list \<Rightarrow> nat list" where
  "order_regions_marginalia_spec L instances =
     (let yc = (\<lambda>i. v_center L (instances ! i));
          col = (\<lambda>i. column_of L instances (instances ! i));
          marginal = (\<lambda>i. is_marginalia L instances (instances ! i));
          main_text = filter (\<lambda>i. \<not> marginal i) [0..<length instances];
          marginalia = filter marginal [0..<length instances]
      in sort_key col (sort_key yc main_text) @ sort_key yc marginalia)"

section \<open>Concrete collaborators for evaluation\<close>

text \<open>
  A small family of collaborators on which the orchestrator can be run: an image is a
  number, a mask is a pair of its area in pixels and its score. The models predict
  the masks \<open>raw\<close>; filtering keeps the masks whose score reaches the threshold (and,
  when \<open>validating\<close>, refuses a threshold outside \<open>[0,1]\<close>); alignment drops the masks
  of area zero; overlap removal drops repeated masks; a crop is the pair of its mask
  and the image, a polygon is the area of its mask; the reading order is the reverse
  of the detection order.
\<close>

definition sample :: "'m list \<Rightarrow> 'm DetDataSample" where
  "sample ms = \<lparr>pred_instances = \<lparr>masks = ms\<rparr>\<rparr>"

definition demo_collaborators ::
  "bool \<Rightarrow> (nat \<times> real) list \<Rightarrow>
     (nat, nat \<times> real, (nat \<times> real) \<times> nat, nat, nat) collaborators" where
  "demo_collaborators validating raw =
     \<lparr>binarize_img = Inr,
      imread = Inr,
      seg_model = (\<lambda>img. Inr [''predictions'' \<mapsto> [sample raw]]),
      line_model = (\<lambda>img. Inr [''predictions'' \<mapsto> [sample raw]]),
      seg_model_visualize = (\<lambda>imgs preds. Inr (map (\<lambda>p. length (masks (pred_instances p))) preds)),
      filter_on_pred_threshold = (\<lambda>p t.
        if validating \<and> \<not> (0 \<le> t \<and> t \<le> 1) then Inl ''InvalidThreshold''
        else Inr (sample (filter (\<lambda>m. t \<le> snd m) (masks (pred_instances p))))),
      align_masks_with_image = (\<lambda>p img.
        Inr (sample (filter (\<lambda>m. fst m \<noteq> 0) (masks (pred_instances p))))),
      remove_overlapping_masks = (\<lambda>p t. Inr (sample (remdups (masks (pred_instances p))))),
      crop_masks = (\<lambda>p img.
        Inr (map (\<lambda>m. (m, img)) (masks (pred_instances p)), map fst (masks (pred_instances p)))),
      order_regions_marginalia = (\<lambda>p.
        Inr (map int (rev [0..<length (masks (pred_instances p))]))),
      order_lines = (\<lambda>p factor.
        Inr (map int (rev [0..<length (masks (pred_instances p))])))\<rparr>"

definition demo_transformers :: "(nat, string, string, string, nat, nat) transformers" where
  \<comment> \<open>every class loads under the name asked for; the model generates the pixel value
     it is given plus one, and decoding spells out nothing but a fixed line\<close>
  "demo_transformers =
     \<lparr>trocr_from_pretrained = Inr,
      auto_image_from_pretrained = Inr,
      ved_from_pretrained = Inr,
      trocr_pixel_values = (\<lambda>processor img. Inr img),
      image_processor_pixel_values = (\<lambda>processor img. Inr img),
      generate = (\<lambda>model pixel_values. Inr (pixel_values + 1)),
      batch_decode = (\<lambda>processor ids. Inr [''Hej'', ''da''])\<rparr>"

text \<open>
  Instances for the modelled components: every mask is given by its pixels; the
  layout reads the centre of an instance off the least pixel coordinates of its mask,
  takes every line to be 10 high, one column, and the regions from column 300 on to
  be marginalia.
\<close>

definition pixel :: "nat \<Rightarrow> nat \<Rightarrow> real \<Rightarrow> RawInstance" where
  "pixel x y s = \<lparr>mask_of = {(x, y)}, score = s\<rparr>"

definition demo_layout :: layout where
  "demo_layout =
     \<lparr>h_center = (\<lambda>i. real (Min (fst ` mask_of i))),
      v_center = (\<lambda>i. real (Min (snd ` mask_of i))),
      line_height = (\<lambda>i. 10),
      is_marginalia = (\<lambda>all i. 300 \<le> Min (fst ` mask_of i)),
      column_of = (\<lambda>all i. 0)\<rparr>"

definition nested :: "RawInstance list" where
  \<comment> \<open>the first mask lies inside the second, the third apart from both\<close>
  "nested = [\<lparr>mask_of = {(0, 0)}, score = 9 / 10\<rparr>,
             \<lparr>mask_of = {(0, 0), (0, 1)}, score = 4 / 5\<rparr>,
             \<lparr>mask_of = {(5, 5)}, score = 7 / 10\<rparr>]"

definition three_lines :: "RawInstance list" where
  \<comment> \<open>lines with vertical centres 12, 10 and 40, the second to the left of the first\<close>
  "three_lines = [pixel 50 12 (9 / 10), pixel 10 10 (9 / 10), pixel 0 40 (9 / 10)]"

definition three_regions :: "RawInstance list" where
  \<comment> \<open>a marginal note at the top, and two regions of the main column below it\<close>
  "three_regions = [pixel 400 1 (9 / 10), pixel 105 50 (9 / 10), pixel 100 20 (9 / 10)]"

definition scored :: "RawInstance list" where
  "scored = [pixel 0 0 (9 / 10), pixel 1 1 (3 / 10), pixel 2 2 (3 / 5)]"

section \<open>Properties of the orchestrator\<close>

subsection \<open>Runs, step by step\<close>

lemma and_then_Inr_iff:
  "and_then m f = (t, Inr b) \<longleftrightarrow>
     (\<exists>t1 a t2. m = (t1, Inr a) \<and> f a = (t2, Inr b) \<and> t = t1 @ t2)"
  by (cases m) (auto simp: and_then_def split: sum.splits prod.splits)

lemma call_Inr_iff: "call ev r = (t, Inr a) \<longleftrightarrow> r = Inr a \<and> t = [ev]"
  by (cases r) (auto simp: call_def external_def)

lemma lift_Inr_iff: "lift r = (t, Inr a) \<longleftrightarrow> r = Inr a \<and> t = []"
  by (auto simp: lift_def)

lemma ret_Inr_iff: "ret a = (t, Inr b) \<longleftrightarrow> a = b \<and> t = []"
  by (auto simp: ret_def)

lemma raise_Inr_iff: "raise e = (t, Inr b) \<longleftrightarrow> False"
  by (auto simp: raise_def)

lemma and_then_Inr [simp]: "and_then (t, Inr a) f = (t @ fst (f a), snd (f a))"
  by (simp add: and_then_def split: prod.splits)

lemma and_then_Inl [simp]: "and_then (t, Inl e) f = (t, Inl e)"
  by (simp add: and_then_def)

lemma predict_regions_success:
  "predict_regions C inp pst ct vis = (t, Inr (viz, crops, polys, ms)) \<longleftrightarrow>
   (\<exists>bin img resp rp f a c rc pg ord tv.
      binarize_img C inp = Inr bin \<and> imread C bin = Inr img \<and> seg_model C img = Inr resp \<and>
      first_prediction resp = Inr rp \<and> filter_on_pred_threshold C rp pst = Inr f \<and>
      masks (pred_instances f) \<noteq> [] \<and>
      align_masks_with_image C f img = Inr a \<and> remove_overlapping_masks C a ct = Inr c \<and>
      visualize_with C vis img c = (tv, Inr viz) \<and>
      crop_masks C c img = Inr (rc, pg) \<and> order_regions_marginalia C c = Inr ord \<and>
      index_all rc ord = Inr crops \<and> index_all pg ord = Inr polys \<and>
      index_all (masks (pred_instances c)) ord = Inr ms \<and>
      t = [Binarize inp, Imread bin, SegModel img, FilterOnPredThreshold rp pst,
           AlignMasksWithImage f img, RemoveOverlappingMasks a ct] @ tv @
          [CropMasks c img, OrderRegionsMarginalia c])"
  (is "?L \<longleftrightarrow> ?R")
proof
  assume ?L
  then show ?R
    unfolding predict_regions_def
    by (auto simp: and_then_Inr_iff call_Inr_iff lift_Inr_iff ret_Inr_iff raise_Inr_iff
        split: prod.splits if_splits)
next
  assume ?R
  then show ?L
    unfolding predict_regions_def
    by (auto simp: call_def lift_def ret_def external_def)
qed


lemma and_then_Inl_iff:
  "and_then m f = (t, Inl e) \<longleftrightarrow>
     m = (t, Inl e) \<or> (\<exists>t1 a t2. m = (t1, Inr a) \<and> f a = (t2, Inl e) \<and> t = t1 @ t2)"
  by (cases m) (auto simp: and_then_def split: sum.splits prod.splits)

lemma call_Inl_iff: "call ev r = (t, Inl e) \<longleftrightarrow> (\<exists>s. r = Inl s \<and> e = Raised s \<and> t = [ev])"
  by (cases r) (auto simp: call_def external_def)

lemma lift_Inl_iff: "lift r = (t, Inl e) \<longleftrightarrow> r = Inl e \<and> t = []"
  by (auto simp: lift_def)

lemma ret_Inl_iff: "ret a = (t, Inl e) \<longleftrightarrow> False"
  by (auto simp: ret_def)

lemma raise_Inl_iff: "raise e' = (t, Inl e) \<longleftrightarrow> e' = e \<and> t = []"
  by (auto simp: raise_def)

lemma py_index_Inl: "py_index xs i = Inl e \<Longrightarrow> e = IndexError"
  by (auto simp: py_index_def split: if_splits)

lemma index_all_Inl: "index_all xs ks = Inl e \<Longrightarrow> e = IndexError"
  by (induction ks) (auto split: sum.splits dest: py_index_Inl)

lemma first_prediction_Inl: "first_prediction resp = Inl e \<Longrightarrow> e = IndexError \<or> e = KeyError"
  by (auto simp: first_prediction_def py_getitem_def split: sum.splits option.splits dest: py_index_Inl)

lemma visualize_with_Inl:
  "visualize_with C vis img c = (t, Inl e) \<Longrightarrow> e = IndexError \<or> (\<exists>s. e = Raised s)"
  by (auto simp: visualize_with_def and_then_Inl_iff call_Inl_iff lift_Inl_iff ret_Inl_iff
      call_Inr_iff split: if_splits dest: py_index_Inl)


lemma predict_lines_success:
  "predict_lines C img pst ct lsf vis strict = (t, Inr (viz, Some crops, Some polys)) \<longleftrightarrow>
   (\<exists>resp rp f a c rc pg ord tv.
      line_model C img = Inr resp \<and>
      first_prediction resp = Inr rp \<and> filter_on_pred_threshold C rp pst = Inr f \<and>
      masks (pred_instances f) \<noteq> [] \<and>
      align_masks_with_image C f img = Inr a \<and> remove_overlapping_masks C a ct = Inr c \<and>
      visualize_with C vis img c = (tv, Inr viz) \<and>
      crop_masks C c img = Inr (rc, pg) \<and> order_lines C c lsf = Inr ord \<and>
      index_all rc ord = Inr crops \<and> index_all pg ord = Inr polys \<and>
      t = [LineModel img, FilterOnPredThreshold rp pst,
           AlignMasksWithImage f img, RemoveOverlappingMasks a ct] @ tv @
          [CropMasks c img, OrderLines c lsf])"
  (is "?L \<longleftrightarrow> ?R")
proof
  assume ?L
  then show ?R
    unfolding predict_lines_def
    by (auto simp: and_then_Inr_iff call_Inr_iff lift_Inr_iff ret_Inr_iff raise_Inr_iff
        split: prod.splits if_splits)
next
  assume ?R
  then show ?L
    unfolding predict_lines_def
    by (auto simp: call_def lift_def ret_def external_def)
qed

lemma predict_lines_no_lines:
  "predict_lines C img pst ct lsf vis strict =
     (t, Inl (GrError ''No Lines were predicted by the model'')) \<longleftrightarrow>
   strict \<and>
   (\<exists>resp rp f.
      line_model C img = Inr resp \<and>
      first_prediction resp = Inr rp \<and> filter_on_pred_threshold C rp pst = Inr f \<and>
      masks (pred_instances f) = [] \<and>
      t = [LineModel img, FilterOnPredThreshold rp pst])"
  (is "?L \<longleftrightarrow> ?R")
proof
  assume ?L
  then show ?R
    unfolding predict_lines_def
    by (auto simp: and_then_Inl_iff call_Inl_iff lift_Inl_iff ret_Inl_iff raise_Inl_iff
        call_Inr_iff lift_Inr_iff
        split: prod.splits if_splits
        dest: index_all_Inl first_prediction_Inl visualize_with_Inl)
next
  assume ?R
  then show ?L
    unfolding predict_lines_def
    by (auto simp: call_def lift_def raise_def external_def)
qed

lemma predict_lines_none:
  "predict_lines C img pst ct lsf vis strict = (t, Inr (viz, None, polys)) \<longleftrightarrow>
   \<not> strict \<and> viz = None \<and> polys = None \<and>
   (\<exists>resp rp f.
      line_model C img = Inr resp \<and>
      first_prediction resp = Inr rp \<and> filter_on_pred_threshold C rp pst = Inr f \<and>
      masks (pred_instances f) = [] \<and>
      t = [LineModel img, FilterOnPredThreshold rp pst])"
  (is "?L \<longleftrightarrow> ?R")
proof
  assume ?L
  then show ?R
    unfolding predict_lines_def
    by (auto simp: and_then_Inr_iff call_Inr_iff lift_Inr_iff ret_Inr_iff raise_Inr_iff
        split: prod.splits if_splits)
next
  assume ?R
  then show ?L
    unfolding predict_lines_def
    by (auto simp: call_def lift_def ret_def external_def)
qed

lemma fst_and_then:
  "fst (and_then m f) = fst m @ (case snd m of Inl e \<Rightarrow> [] | Inr a \<Rightarrow> fst (f a))"
  by (cases m) (auto simp: and_then_def split: sum.splits prod.splits)

lemma thresholds_regions:
  "(FilterOnPredThreshold p x \<in> set (fst (predict_regions C inp pst ct vis)) \<longrightarrow> x = pst) \<and>
   (RemoveOverlappingMasks p x \<in> set (fst (predict_regions C inp pst ct vis)) \<longrightarrow> x = ct)"
  unfolding predict_regions_def visualize_with_def
  by (auto simp: fst_and_then call_def lift_def ret_def raise_def
      split: sum.splits prod.splits if_splits)

lemma thresholds_lines:
  "(FilterOnPredThreshold p x \<in> set (fst (predict_lines C img pst ct lsf vis strict)) \<longrightarrow> x = pst) \<and>
   (RemoveOverlappingMasks p x \<in> set (fst (predict_lines C img pst ct lsf vis strict)) \<longrightarrow> x = ct)"
  unfolding predict_lines_def visualize_with_def
  by (auto simp: fst_and_then call_def lift_def ret_def raise_def
      split: sum.splits prod.splits if_splits)

lemma model_first_regions:
  "binarize_img C inp = Inr b \<Longrightarrow> imread C b = Inr img \<Longrightarrow>
   take 3 (fst (predict_regions C inp pst ct vis)) = [Binarize inp, Imread b, SegModel img]"
  unfolding predict_regions_def
  by (simp add: fst_and_then call_def external_def)

lemma model_first_lines:
  "take 1 (fst (predict_lines C img pst ct lsf vis strict)) = [LineModel img]"
  unfolding predict_lines_def
  by (simp add: fst_and_then call_def)

lemma index_all_Inr_iff:
  "index_all xs ks = Inr ys \<longleftrightarrow>
     length ys = length ks \<and> (\<forall>k<length ks. py_index xs (ks ! k) = Inr (ys ! k))"
proof (induction ks arbitrary: ys)
  case Nil
  then show ?case by auto
next
  case (Cons i ks)
  show ?case
  proof (cases ys)
    case Nil
    then show ?thesis by (auto split: sum.splits)
  next
    case (Cons y ys')
    then show ?thesis
      using Cons.IH [of ys']
      by (auto simp: All_less_Suc2 split: sum.splits)
  qed
qed

lemma py_index_map:
  "py_index (map f xs) i = (case py_index xs i of Inl e \<Rightarrow> Inl e | Inr x \<Rightarrow> Inr (f x))"
  by (auto simp: py_index_def)

lemma index_all_map:
  "index_all (map f xs) ks =
     (case index_all xs ks of Inl e \<Rightarrow> Inl e | Inr ys \<Rightarrow> Inr (map f ys))"
  by (induction ks) (auto simp: py_index_map split: sum.splits)


lemma visualize_with_Inr:
  "visualize_with C vis img c = (tv, Inr viz) \<Longrightarrow>
     tv = (if vis then [Visualize [img] [c]] else [])"
  by (auto simp: visualize_with_def and_then_Inr_iff call_Inr_iff lift_Inr_iff ret_Inr_iff
      split: if_splits)

lemmas run_defs =
  predict_regions_def predict_lines_def visualize_with_def call_def lift_def ret_def raise_def
  external_def first_prediction_def py_getitem_def py_index_def demo_collaborators_def sample_def

lemma index_all_not_GrError: "index_all xs ks \<noteq> Inl (GrError m)"
  using index_all_Inl by blast

lemma first_prediction_not_GrError: "first_prediction r \<noteq> Inl (GrError m)"
  using first_prediction_Inl by blast

lemma visualize_with_not_GrError: "visualize_with C vis img c \<noteq> (t, Inl (GrError m))"
  using visualize_with_Inl [of C vis img c t "GrError m"] by auto

lemma predict_regions_GrError:
  "predict_regions C inp pst ct vis = (t, Inl (GrError m)) \<Longrightarrow>
     m = ''No Regions were predicted by the model''"
  unfolding predict_regions_def
  by (auto simp: and_then_Inl_iff call_Inl_iff lift_Inl_iff ret_Inl_iff raise_Inl_iff
      call_Inr_iff lift_Inr_iff index_all_not_GrError first_prediction_not_GrError
      visualize_with_not_GrError
      split: prod.splits if_splits)

lemma predict_lines_GrError:
  "predict_lines C img pst ct lsf vis strict = (t, Inl (GrError m)) \<Longrightarrow>
     m = ''No Lines were predicted by the model''"
  unfolding predict_lines_def
  by (auto simp: and_then_Inl_iff call_Inl_iff lift_Inl_iff ret_Inl_iff raise_Inl_iff
      call_Inr_iff lift_Inr_iff index_all_not_GrError first_prediction_not_GrError
      visualize_with_not_GrError
      split: prod.splits if_splits)



lemma filter_threshold_regions:
  "FilterOnPredThreshold p x \<in> set (fst (predict_regions C inp pst ct vis)) \<Longrightarrow> x = pst"
  using thresholds_regions [of p x C inp pst ct vis] by simp

lemma overlap_threshold_regions:
  "RemoveOverlappingMasks p x \<in> set (fst (predict_regions C inp pst ct vis)) \<Longrightarrow> x = ct"
  using thresholds_regions [of p x C inp pst ct vis] by simp

lemma filter_threshold_lines:
  "FilterOnPredThreshold p x \<in> set (fst (predict_lines C img pst ct lsf vis strict)) \<Longrightarrow>
     x = pst"
  using thresholds_lines [of p x C img pst ct lsf vis strict] by simp

lemma overlap_threshold_lines:
  "RemoveOverlappingMasks p x \<in> set (fst (predict_lines C img pst ct lsf vis strict)) \<Longrightarrow>
     x = ct"
  using thresholds_lines [of p x C img pst ct lsf vis strict] by simp

lemma predict_regions_own_errors:
  "snd (predict_regions C inp pst ct vis) = Inl e \<Longrightarrow>
     e = GrError ''No Regions were predicted by the model'' \<or> e = IndexError \<or> e = KeyError \<or>
     (\<exists>s. e = Raised s)"
proof -
  assume "snd (predict_regions C inp pst ct vis) = Inl e"
  then have "predict_regions C inp pst ct vis = (fst (predict_regions C inp pst ct vis), Inl e)"
    by (simp add: prod_eq_iff)
  then show ?thesis
    by (cases e) (auto dest: predict_regions_GrError)
qed

lemma predict_lines_own_errors:
  "snd (predict_lines C img pst ct lsf vis strict) = Inl e \<Longrightarrow>
     e = GrError ''No Lines were predicted by the model'' \<or> e = IndexError \<or> e = KeyError \<or>
     (\<exists>s. e = Raised s)"
proof -
  assume "snd (predict_lines C img pst ct lsf vis strict) = Inl e"
  then have "predict_lines C img pst ct lsf vis strict =
      (fst (predict_lines C img pst ct lsf vis strict), Inl e)"
    by (simp add: prod_eq_iff)
  then show ?thesis
    by (cases e) (auto dest: predict_lines_GrError)
qed

subsection \<open>The claims about the orchestrator\<close>

text \<open>
  C1 (as amended). The guard of \<^verbatim>\<open>predict_lines\<close> tests the score-filtered prediction,
  before alignment and overlap removal. With \<^verbatim>\<open>custom_track\<close> set (strict mode) the call
  fails with the error "No Lines were predicted by the model" exactly when the line
  model and the filter return and the filtered prediction has no masks; without it
  (lenient mode) the call returns the triple \<^verbatim>\<open>(None, None, None)\<close> exactly in that
  case, and never raises that error. In both cases the log ends after the filter: no
  alignment, overlap removal, cropping or ordering is attempted.
\<close>

theorem predict_lines_empty_prediction:
  "(predict_lines C img pst ct lsf vis True =
      (t, Inl (GrError ''No Lines were predicted by the model'')) \<longleftrightarrow>
    (\<exists>resp rp f.
       line_model C img = Inr resp \<and> first_prediction resp = Inr rp \<and>
       filter_on_pred_threshold C rp pst = Inr f \<and> masks (pred_instances f) = [] \<and>
       t = [LineModel img, FilterOnPredThreshold rp pst])) \<and>
   (predict_lines C img pst ct lsf vis False = (t, Inr (None, None, None)) \<longleftrightarrow>
    (\<exists>resp rp f.
       line_model C img = Inr resp \<and> first_prediction resp = Inr rp \<and>
       filter_on_pred_threshold C rp pst = Inr f \<and> masks (pred_instances f) = [] \<and>
       t = [LineModel img, FilterOnPredThreshold rp pst])) \<and>
   snd (predict_lines C img pst ct lsf vis False) \<noteq>
     Inl (GrError ''No Lines were predicted by the model'')"
proof (intro conjI)
  show "predict_lines C img pst ct lsf vis True =
      (t, Inl (GrError ''No Lines were predicted by the model'')) \<longleftrightarrow>
    (\<exists>resp rp f.
       line_model C img = Inr resp \<and> first_prediction resp = Inr rp \<and>
       filter_on_pred_threshold C rp pst = Inr f \<and> masks (pred_instances f) = [] \<and>
       t = [LineModel img, FilterOnPredThreshold rp pst])"
    by (simp add: predict_lines_no_lines)
  show "predict_lines C img pst ct lsf vis False = (t, Inr (None, None, None)) \<longleftrightarrow>
    (\<exists>resp rp f.
       line_model C img = Inr resp \<and> first_prediction resp = Inr rp \<and>
       filter_on_pred_threshold C rp pst = Inr f \<and> masks (pred_instances f) = [] \<and>
       t = [LineModel img, FilterOnPredThreshold rp pst])"
    by (simp add: predict_lines_none)
  show "snd (predict_lines C img pst ct lsf vis False) \<noteq>
     Inl (GrError ''No Lines were predicted by the model'')"
  proof
    assume a: "snd (predict_lines C img pst ct lsf vis False) =
      Inl (GrError ''No Lines were predicted by the model'')"
    have "predict_lines C img pst ct lsf vis False =
      (fst (predict_lines C img pst ct lsf vis False),
       Inl (GrError ''No Lines were predicted by the model''))"
      by (simp add: a [symmetric])
    then show False
      by (simp only: predict_lines_no_lines) simp
  qed
qed

theorem predict_lines_empty_prediction_witness:
  "predict_lines (demo_collaborators False [(7, 3 / 10)]) 1 (1 / 2) (1 / 2) (1 / 2) True True =
     ([LineModel 1, FilterOnPredThreshold (sample [(7, 3 / 10)]) (1 / 2)],
      Inl (GrError ''No Lines were predicted by the model'')) \<and>
   predict_lines (demo_collaborators False [(7, 3 / 10)]) 1 (1 / 2) (1 / 2) (1 / 2) True False =
     ([LineModel 1, FilterOnPredThreshold (sample [(7, 3 / 10)]) (1 / 2)],
      Inr (None, None, None))"
proof -
  let ?C = "demo_collaborators False [(7, 3 / 10)]"
  have e: "\<exists>resp rp f.
       line_model ?C (1::nat) = Inr resp \<and> first_prediction resp = Inr rp \<and>
       filter_on_pred_threshold ?C rp (1 / 2) = Inr f \<and> masks (pred_instances f) = [] \<and>
       [LineModel 1, FilterOnPredThreshold (sample [(7, 3 / 10)]) (1 / 2)] =
         [LineModel 1, FilterOnPredThreshold rp (1 / 2)]"
    by (simp add: run_defs)
  show ?thesis
    using predict_lines_empty_prediction [of ?C 1 "1 / 2" "1 / 2" "1 / 2" True
        "[LineModel 1, FilterOnPredThreshold (sample [(7, 3 / 10)]) (1 / 2)]"] e
    by blast
qed

text \<open>
  The lenient result is null in every component: it is not a result recording zero
  lines (empty sequences of crops and polygons).
\<close>

theorem predict_lines_lenient_counterexample:
  "predict_lines (demo_collaborators False []) 1 (1 / 2) (1 / 2) (1 / 2) True False =
     ([LineModel 1, FilterOnPredThreshold (sample []) (1 / 2)], Inr (None, None, None)) \<and>
   \<not> (\<exists>viz crops polys.
        snd (predict_lines (demo_collaborators False []) 1 (1 / 2) (1 / 2) (1 / 2) True False) =
          Inr (viz, Some crops, Some polys))"
  by (simp add: run_defs)

text \<open>
  C2 (as amended). The orchestrator validates no threshold. Whatever the thresholds
  are, \<^verbatim>\<open>predict_regions\<close> calls the region model as soon as the image is binarized and
  read, and \<^verbatim>\<open>predict_lines\<close> calls the line model first of all; the thresholds reach
  \<^verbatim>\<open>filter_on_pred_threshold\<close> and \<^verbatim>\<open>remove_overlapping_masks\<close> unchanged; and the only
  errors the orchestrator raises itself are its "No Regions"/"No Lines" error and the
  index and key errors of its own subscripts. Any other exception comes out of a
  collaborator.
\<close>

theorem thresholds_passed_on_unchecked:
  "(\<forall>b img. binarize_img C inp = Inr b \<longrightarrow> imread C b = Inr img \<longrightarrow>
      take 3 (fst (predict_regions C inp pst ct vis)) = [Binarize inp, Imread b, SegModel img]) \<and>
   take 1 (fst (predict_lines C region pst ct lsf vis strict)) = [LineModel region] \<and>
   (\<forall>p x. FilterOnPredThreshold p x \<in> set (fst (predict_regions C inp pst ct vis)) \<longrightarrow> x = pst) \<and>
   (\<forall>p x. RemoveOverlappingMasks p x \<in> set (fst (predict_regions C inp pst ct vis)) \<longrightarrow> x = ct) \<and>
   (\<forall>p x. FilterOnPredThreshold p x \<in> set (fst (predict_lines C region pst ct lsf vis strict))
      \<longrightarrow> x = pst) \<and>
   (\<forall>p x. RemoveOverlappingMasks p x \<in> set (fst (predict_lines C region pst ct lsf vis strict))
      \<longrightarrow> x = ct) \<and>
   (\<forall>e. snd (predict_regions C inp pst ct vis) = Inl e \<longrightarrow>
      e = GrError ''No Regions were predicted by the model'' \<or> e = IndexError \<or> e = KeyError \<or>
      (\<exists>s. e = Raised s)) \<and>
   (\<forall>e. snd (predict_lines C region pst ct lsf vis strict) = Inl e \<longrightarrow>
      e = GrError ''No Lines were predicted by the model'' \<or> e = IndexError \<or> e = KeyError \<or>
      (\<exists>s. e = Raised s))"
  apply (intro conjI allI impI)
         apply (erule (1) model_first_regions)
        apply (rule model_first_lines)
       apply (erule filter_threshold_regions)
      apply (erule overlap_threshold_regions)
     apply (erule filter_threshold_lines)
    apply (erule overlap_threshold_lines)
   apply (erule predict_regions_own_errors)
  apply (erule predict_lines_own_errors)
  done

theorem thresholds_passed_on_unchecked_witness:
  "binarize_img (demo_collaborators False [(4, 9 / 10)]) (1::nat) = Inr 1 \<and>
   imread (demo_collaborators False [(4, 9 / 10)]) (1::nat) = Inr 1 \<and>
   take 3 (fst (predict_regions (demo_collaborators False [(4, 9 / 10)]) 1 (3 / 2) (- (1 / 10)) True)) =
     [Binarize 1, Imread 1, SegModel 1] \<and>
   FilterOnPredThreshold (sample [(4, 9 / 10)]) (3 / 2) \<in>
     set (fst (predict_regions (demo_collaborators False [(4, 9 / 10)]) 1 (3 / 2) (- (1 / 10)) True)) \<and>
   snd (predict_regions (demo_collaborators False [(4, 9 / 10)]) 1 (3 / 2) (- (1 / 10)) True) =
     Inl (GrError ''No Regions were predicted by the model'')"
proof -
  let ?C = "demo_collaborators False [(4, 9 / 10)]"
  have b: "binarize_img ?C (1::nat) = Inr 1" and i: "imread ?C (1::nat) = Inr 1"
    by (simp_all add: demo_collaborators_def)
  have r: "predict_regions ?C 1 (3 / 2) (- (1 / 10)) True =
      ([Binarize 1, Imread 1, SegModel 1, FilterOnPredThreshold (sample [(4, 9 / 10)]) (3 / 2)],
       Inl (GrError ''No Regions were predicted by the model''))"
    by (simp add: run_defs)
  from thresholds_passed_on_unchecked [of ?C 1 "3 / 2" "- (1 / 10)" True] b i
  have "take 3 (fst (predict_regions ?C 1 (3 / 2) (- (1 / 10)) True)) =
      [Binarize 1, Imread 1, SegModel 1]"
    by blast
  with b i r show ?thesis by simp
qed

text \<open>
  With a filter that refuses a threshold of \<open>1.5\<close>, the refusal arrives after the
  region model has been called; with a filter that validates nothing, a threshold of
  \<open>-0.1\<close> raises nothing at all.
\<close>

theorem invalid_threshold_counterexample:
  "predict_regions (demo_collaborators True [(4, 9 / 10)]) 1 (3 / 2) (1 / 2) True =
     ([Binarize 1, Imread 1, SegModel 1, FilterOnPredThreshold (sample [(4, 9 / 10)]) (3 / 2)],
      Inl (Raised ''InvalidThreshold'')) \<and>
   predict_lines (demo_collaborators False [(4, 9 / 10)]) 1 (- (1 / 10)) (1 / 2) (1 / 2) False True =
     ([LineModel 1, FilterOnPredThreshold (sample [(4, 9 / 10)]) (- (1 / 10)),
       AlignMasksWithImage (sample [(4, 9 / 10)]) 1,
       RemoveOverlappingMasks (sample [(4, 9 / 10)]) (1 / 2),
       CropMasks (sample [(4, 9 / 10)]) 1, OrderLines (sample [(4, 9 / 10)]) (1 / 2)],
      Inr (None, Some [((4, 9 / 10), 1)], Some [4]))"
  by (simp add: run_defs)

text \<open>
  C3 (as amended). \<^verbatim>\<open>predict_regions\<close> fails with the error "No Regions were predicted
  by the model" exactly when binarization, reading, the region model and the filter
  return and the score-filtered prediction has no masks. The guard stands before
  alignment and overlap removal: in that case the log ends with the filter, so
  neither alignment nor overlap removal, visualisation, cropping or ordering is
  attempted. The set surviving overlap removal is not tested.
\<close>

theorem predict_regions_guard:
  "predict_regions C inp pst ct vis =
     (t, Inl (GrError ''No Regions were predicted by the model'')) \<longleftrightarrow>
   (\<exists>bin img resp rp f.
      binarize_img C inp = Inr bin \<and> imread C bin = Inr img \<and> seg_model C img = Inr resp \<and>
      first_prediction resp = Inr rp \<and> filter_on_pred_threshold C rp pst = Inr f \<and>
      masks (pred_instances f) = [] \<and>
      t = [Binarize inp, Imread bin, SegModel img, FilterOnPredThreshold rp pst])"
  (is "?L \<longleftrightarrow> ?R")
proof
  assume ?L
  then show ?R
    unfolding predict_regions_def
    by (auto simp: and_then_Inl_iff call_Inl_iff lift_Inl_iff ret_Inl_iff raise_Inl_iff
        call_Inr_iff lift_Inr_iff
        split: prod.splits if_splits
        dest: index_all_Inl first_prediction_Inl visualize_with_Inl)
next
  assume ?R
  then show ?L
    unfolding predict_regions_def
    by (auto simp: call_def lift_def raise_def external_def)
qed

theorem predict_regions_guard_witness:
  "predict_regions (demo_collaborators False [(7, 3 / 10)]) 1 (1 / 2) (1 / 2) True =
     ([Binarize 1, Imread 1, SegModel 1, FilterOnPredThreshold (sample [(7, 3 / 10)]) (1 / 2)],
      Inl (GrError ''No Regions were predicted by the model''))"
proof -
  let ?C = "demo_collaborators False [(7, 3 / 10)]"
  have "\<exists>bin img resp rp f.
      binarize_img ?C (1::nat) = Inr bin \<and> imread ?C bin = Inr img \<and> seg_model ?C img = Inr resp \<and>
      first_prediction resp = Inr rp \<and> filter_on_pred_threshold ?C rp (1 / 2) = Inr f \<and>
      masks (pred_instances f) = [] \<and>
      [Binarize 1, Imread 1, SegModel 1, FilterOnPredThreshold (sample [(7, 3 / 10)]) (1 / 2)] =
        [Binarize 1, Imread bin, SegModel img, FilterOnPredThreshold rp (1 / 2)]"
    by (simp add: run_defs)
  then show ?thesis
    by (simp only: predict_regions_guard [of ?C 1 "1 / 2" "1 / 2" True])
qed

text \<open>
  A prediction whose only mask passes the filter and is dropped by alignment (its
  aligned area is zero) leaves nothing for overlap removal to keep. The run does not
  fail: it goes on to crop and order the empty set and returns empty sequences.
\<close>

theorem empty_clean_set_counterexample:
  "filter_on_pred_threshold (demo_collaborators False [(0, 9 / 10)]) (sample [(0, 9 / 10)]) (1 / 2) =
     Inr (sample [(0, 9 / 10)]) \<and>
   align_masks_with_image (demo_collaborators False [(0, 9 / 10)]) (sample [(0, 9 / 10)]) (1::nat) =
     Inr (sample []) \<and>
   remove_overlapping_masks (demo_collaborators False [(0, 9 / 10)]) (sample []) (1 / 2) =
     Inr (sample []) \<and>
   predict_regions (demo_collaborators False [(0, 9 / 10)]) 1 (1 / 2) (1 / 2) True =
     ([Binarize 1, Imread 1, SegModel 1, FilterOnPredThreshold (sample [(0, 9 / 10)]) (1 / 2),
       AlignMasksWithImage (sample [(0, 9 / 10)]) 1, RemoveOverlappingMasks (sample []) (1 / 2),
       Visualize [1] [sample []], CropMasks (sample []) 1, OrderRegionsMarginalia (sample [])],
      Inr (Some 0, [], [], []))"
  by (simp add: run_defs)

text \<open>
  C4 (as amended). In both stages a run that reaches its end has called, in this
  order: the model, \<^verbatim>\<open>filter_on_pred_threshold\<close> on the model's prediction,
  \<^verbatim>\<open>align_masks_with_image\<close> on the filtered prediction, \<^verbatim>\<open>remove_overlapping_masks\<close>
  on the aligned prediction, the visualisation on request, and then \<^verbatim>\<open>crop_masks\<close> and
  the ordering, both on the prediction that overlap removal returned. Alignment comes
  before overlap removal, not after it.
\<close>

theorem stage_order:
  "(predict_regions C inp pst ct vis = (t, Inr (viz, crops, polys, ms)) \<longrightarrow>
    (\<exists>bin img resp rp f a c.
       binarize_img C inp = Inr bin \<and> imread C bin = Inr img \<and> seg_model C img = Inr resp \<and>
       first_prediction resp = Inr rp \<and>
       filter_on_pred_threshold C rp pst = Inr f \<and>
       align_masks_with_image C f img = Inr a \<and>
       remove_overlapping_masks C a ct = Inr c \<and>
       t = [Binarize inp, Imread bin, SegModel img, FilterOnPredThreshold rp pst,
            AlignMasksWithImage f img, RemoveOverlappingMasks a ct] @
           (if vis then [Visualize [img] [c]] else []) @
           [CropMasks c img, OrderRegionsMarginalia c])) \<and>
   (predict_lines C region pst ct lsf vis strict = (t', Inr (viz', Some crops', Some polys')) \<longrightarrow>
    (\<exists>resp rp f a c.
       line_model C region = Inr resp \<and> first_prediction resp = Inr rp \<and>
       filter_on_pred_threshold C rp pst = Inr f \<and>
       align_masks_with_image C f region = Inr a \<and>
       remove_overlapping_masks C a ct = Inr c \<and>
       t' = [LineModel region, FilterOnPredThreshold rp pst,
             AlignMasksWithImage f region, RemoveOverlappingMasks a ct] @
            (if vis then [Visualize [region] [c]] else []) @
            [CropMasks c region, OrderLines c lsf]))"
proof (intro conjI impI)
  assume "predict_regions C inp pst ct vis = (t, Inr (viz, crops, polys, ms))"
  then obtain bin img resp rp f a c tv where
    "binarize_img C inp = Inr bin" "imread C bin = Inr img" "seg_model C img = Inr resp"
    "first_prediction resp = Inr rp" "filter_on_pred_threshold C rp pst = Inr f"
    "align_masks_with_image C f img = Inr a" "remove_overlapping_masks C a ct = Inr c"
    "visualize_with C vis img c = (tv, Inr viz)"
    "t = [Binarize inp, Imread bin, SegModel img, FilterOnPredThreshold rp pst,
          AlignMasksWithImage f img, RemoveOverlappingMasks a ct] @ tv @
         [CropMasks c img, OrderRegionsMarginalia c]"
    unfolding predict_regions_success by blast
  moreover from this have "tv = (if vis then [Visualize [img] [c]] else [])"
    by (simp add: visualize_with_Inr)
  ultimately show "\<exists>bin img resp rp f a c.
       binarize_img C inp = Inr bin \<and> imread C bin = Inr img \<and> seg_model C img = Inr resp \<and>
       first_prediction resp = Inr rp \<and>
       filter_on_pred_threshold C rp pst = Inr f \<and>
       align_masks_with_image C f img = Inr a \<and>
       remove_overlapping_masks C a ct = Inr c \<and>
       t = [Binarize inp, Imread bin, SegModel img, FilterOnPredThreshold rp pst,
            AlignMasksWithImage f img, RemoveOverlappingMasks a ct] @
           (if vis then [Visualize [img] [c]] else []) @
           [CropMasks c img, OrderRegionsMarginalia c]"
    by simp
next
  assume "predict_lines C region pst ct lsf vis strict = (t', Inr (viz', Some crops', Some polys'))"
  then obtain resp rp f a c tv where
    "line_model C region = Inr resp"
    "first_prediction resp = Inr rp" "filter_on_pred_threshold C rp pst = Inr f"
    "align_masks_with_image C f region = Inr a" "remove_overlapping_masks C a ct = Inr c"
    "visualize_with C vis region c = (tv, Inr viz')"
    "t' = [LineModel region, FilterOnPredThreshold rp pst,
          AlignMasksWithImage f region, RemoveOverlappingMasks a ct] @ tv @
         [CropMasks c region, OrderLines c lsf]"
    unfolding predict_lines_success by blast
  moreover from this have "tv = (if vis then [Visualize [region] [c]] else [])"
    by (simp add: visualize_with_Inr)
  ultimately show "\<exists>resp rp f a c.
       line_model C region = Inr resp \<and> first_prediction resp = Inr rp \<and>
       filter_on_pred_threshold C rp pst = Inr f \<and>
       align_masks_with_image C f region = Inr a \<and>
       remove_overlapping_masks C a ct = Inr c \<and>
       t' = [LineModel region, FilterOnPredThreshold rp pst,
             AlignMasksWithImage f region, RemoveOverlappingMasks a ct] @
            (if vis then [Visualize [region] [c]] else []) @
            [CropMasks c region, OrderLines c lsf]"
    by simp
qed


theorem stage_order_witness:
  "predict_regions (demo_collaborators False [(4, 9 / 10), (3, 4 / 5)]) 1 (1 / 2) (1 / 2) True =
     ([Binarize 1, Imread 1, SegModel 1,
       FilterOnPredThreshold (sample [(4, 9 / 10), (3, 4 / 5)]) (1 / 2),
       AlignMasksWithImage (sample [(4, 9 / 10), (3, 4 / 5)]) 1,
       RemoveOverlappingMasks (sample [(4, 9 / 10), (3, 4 / 5)]) (1 / 2),
       Visualize [1] [sample [(4, 9 / 10), (3, 4 / 5)]],
       CropMasks (sample [(4, 9 / 10), (3, 4 / 5)]) 1,
       OrderRegionsMarginalia (sample [(4, 9 / 10), (3, 4 / 5)])],
      Inr (Some 2, [((3, 4 / 5), 1), ((4, 9 / 10), 1)], [3, 4], [(3, 4 / 5), (4, 9 / 10)])) \<and>
   (\<exists>f a c.
      filter_on_pred_threshold (demo_collaborators False [(4, 9 / 10), (3, 4 / 5)])
        (sample [(4, 9 / 10), (3, 4 / 5)]) (1 / 2) = Inr f \<and>
      align_masks_with_image (demo_collaborators False [(4, 9 / 10), (3, 4 / 5)]) f (1::nat) = Inr a \<and>
      remove_overlapping_masks (demo_collaborators False [(4, 9 / 10), (3, 4 / 5)]) a (1 / 2) = Inr c)"
proof -
  let ?C = "demo_collaborators False [(4, 9 / 10), (3, 4 / 5)]"
  have run: "predict_regions ?C 1 (1 / 2) (1 / 2) True =
     ([Binarize 1, Imread 1, SegModel 1,
       FilterOnPredThreshold (sample [(4, 9 / 10), (3, 4 / 5)]) (1 / 2),
       AlignMasksWithImage (sample [(4, 9 / 10), (3, 4 / 5)]) 1,
       RemoveOverlappingMasks (sample [(4, 9 / 10), (3, 4 / 5)]) (1 / 2),
       Visualize [1] [sample [(4, 9 / 10), (3, 4 / 5)]],
       CropMasks (sample [(4, 9 / 10), (3, 4 / 5)]) 1,
       OrderRegionsMarginalia (sample [(4, 9 / 10), (3, 4 / 5)])],
      Inr (Some 2, [((3, 4 / 5), 1), ((4, 9 / 10), 1)], [3, 4], [(3, 4 / 5), (4, 9 / 10)]))"
    by (simp add: run_defs)
  from stage_order [THEN conjunct1, rule_format, OF run]
  obtain bin img resp rp f a c where
    "binarize_img ?C (1::nat) = Inr bin" "imread ?C bin = Inr img" "seg_model ?C img = Inr resp"
    "first_prediction resp = Inr rp"
    "filter_on_pred_threshold ?C rp (1 / 2) = Inr f"
    "align_masks_with_image ?C f img = Inr a"
    "remove_overlapping_masks ?C a (1 / 2) = Inr c"
    by blast
  then have "\<exists>f a c.
      filter_on_pred_threshold ?C (sample [(4, 9 / 10), (3, 4 / 5)]) (1 / 2) = Inr f \<and>
      align_masks_with_image ?C f (1::nat) = Inr a \<and>
      remove_overlapping_masks ?C a (1 / 2) = Inr c"
    by (simp add: run_defs)
  with run show ?thesis by blast
qed

text \<open>
  Four predicted masks, of which the filter keeps three, alignment two and overlap
  removal one: alignment is handed the three filtered masks, not the cleaned one, and
  overlap removal the two aligned masks, not the three filtered ones.
\<close>

theorem stage_order_counterexample:
  "predict_regions (demo_collaborators False [(4, 9 / 10), (0, 4 / 5), (4, 9 / 10), (7, 3 / 10)])
     1 (1 / 2) (1 / 2) False =
     ([Binarize 1, Imread 1, SegModel 1,
       FilterOnPredThreshold (sample [(4, 9 / 10), (0, 4 / 5), (4, 9 / 10), (7, 3 / 10)]) (1 / 2),
       AlignMasksWithImage (sample [(4, 9 / 10), (0, 4 / 5), (4, 9 / 10)]) 1,
       RemoveOverlappingMasks (sample [(4, 9 / 10), (4, 9 / 10)]) (1 / 2),
       CropMasks (sample [(4, 9 / 10)]) 1,
       OrderRegionsMarginalia (sample [(4, 9 / 10)])],
      Inr (None, [((4, 9 / 10), 1)], [4], [(4, 9 / 10)])) \<and>
   predict_lines (demo_collaborators False [(4, 9 / 10), (0, 4 / 5), (4, 9 / 10), (7, 3 / 10)])
     1 (1 / 2) (1 / 2) (1 / 2) False True =
     ([LineModel 1,
       FilterOnPredThreshold (sample [(4, 9 / 10), (0, 4 / 5), (4, 9 / 10), (7, 3 / 10)]) (1 / 2),
       AlignMasksWithImage (sample [(4, 9 / 10), (0, 4 / 5), (4, 9 / 10)]) 1,
       RemoveOverlappingMasks (sample [(4, 9 / 10), (4, 9 / 10)]) (1 / 2),
       CropMasks (sample [(4, 9 / 10)]) 1,
       OrderLines (sample [(4, 9 / 10)]) (1 / 2)],
      Inr (None, Some [((4, 9 / 10), 1)], Some [4])) \<and>
   filter_on_pred_threshold
     (demo_collaborators False [(4, 9 / 10), (0, 4 / 5), (4, 9 / 10), (7, 3 / 10)])
     (sample [(4, 9 / 10), (0, 4 / 5), (4, 9 / 10), (7, 3 / 10)]) (1 / 2) =
     Inr (sample [(4, 9 / 10), (0, 4 / 5), (4, 9 / 10)]) \<and>
   align_masks_with_image
     (demo_collaborators False [(4, 9 / 10), (0, 4 / 5), (4, 9 / 10), (7, 3 / 10)])
     (sample [(4, 9 / 10), (0, 4 / 5), (4, 9 / 10)]) (1::nat) =
     Inr (sample [(4, 9 / 10), (4, 9 / 10)]) \<and>
   remove_overlapping_masks
     (demo_collaborators False [(4, 9 / 10), (0, 4 / 5), (4, 9 / 10), (7, 3 / 10)])
     (sample [(4, 9 / 10), (4, 9 / 10)]) (1 / 2) =
     Inr (sample [(4, 9 / 10)])"
  by (simp add: run_defs)

text \<open>
  C9. A call of \<^verbatim>\<open>predict_regions\<close> that returns has cropped and ordered one and the same
  cleaned prediction, and its three output sequences are that prediction's crops,
  polygons and masks read at one and the same index sequence \<open>ord\<close>: all three have
  the length of \<open>ord\<close>, and at every position \<open>k\<close> the crop, the polygon and the mask
  are the entries at index \<open>ord ! k\<close>. Hence, whenever \<^verbatim>\<open>crop_masks\<close> returns its crops
  and polygons index-aligned with the masks, the \<open>k\<close>-th crop and the \<open>k\<close>-th polygon
  returned are those of the \<open>k\<close>-th mask returned.
\<close>

theorem ordered_outputs_paired:
  assumes "predict_regions C inp pst ct vis = (t, Inr (viz, crops, polys, ms))"
  shows "\<exists>img c rc pg ord.
    CropMasks c img \<in> set t \<and> OrderRegionsMarginalia c \<in> set t \<and>
    crop_masks C c img = Inr (rc, pg) \<and> order_regions_marginalia C c = Inr ord \<and>
    length crops = length ord \<and> length polys = length ord \<and> length ms = length ord \<and>
    (\<forall>k<length ord.
       py_index rc (ord ! k) = Inr (crops ! k) \<and>
       py_index pg (ord ! k) = Inr (polys ! k) \<and>
       py_index (masks (pred_instances c)) (ord ! k) = Inr (ms ! k)) \<and>
    (\<forall>crop_of polygon_of.
       rc = map crop_of (masks (pred_instances c)) \<and>
       pg = map polygon_of (masks (pred_instances c)) \<longrightarrow>
       crops = map crop_of ms \<and> polys = map polygon_of ms)"
proof -
  from assms obtain img c rc pg ord tv pre where
    c: "crop_masks C c img = Inr (rc, pg)" and o: "order_regions_marginalia C c = Inr ord"
    and i1: "index_all rc ord = Inr crops" and i2: "index_all pg ord = Inr polys"
    and i3: "index_all (masks (pred_instances c)) ord = Inr ms"
    and t: "t = pre @ tv @ [CropMasks c img, OrderRegionsMarginalia c]"
    unfolding predict_regions_success by blast
  have "CropMasks c img \<in> set t" "OrderRegionsMarginalia c \<in> set t"
    using t by simp_all
  moreover have "length crops = length ord" "length polys = length ord" "length ms = length ord"
    using i1 i2 i3 by (simp_all add: index_all_Inr_iff)
  moreover have "\<forall>k<length ord.
       py_index rc (ord ! k) = Inr (crops ! k) \<and>
       py_index pg (ord ! k) = Inr (polys ! k) \<and>
       py_index (masks (pred_instances c)) (ord ! k) = Inr (ms ! k)"
    using i1 i2 i3 by (simp add: index_all_Inr_iff)
  moreover have "\<forall>crop_of polygon_of.
       rc = map crop_of (masks (pred_instances c)) \<and>
       pg = map polygon_of (masks (pred_instances c)) \<longrightarrow>
       crops = map crop_of ms \<and> polys = map polygon_of ms"
    using i1 i2 i3 by (auto simp: index_all_map)
  ultimately show ?thesis using c o by blast
qed

theorem ordered_outputs_paired_witness:
  "predict_regions (demo_collaborators False [(4, 9 / 10), (3, 4 / 5)]) 1 (1 / 2) (1 / 2) False =
     ([Binarize (1::nat), Imread 1, SegModel 1,
       FilterOnPredThreshold (sample [(4, 9 / 10), (3, 4 / 5)]) (1 / 2),
       AlignMasksWithImage (sample [(4, 9 / 10), (3, 4 / 5)]) 1,
       RemoveOverlappingMasks (sample [(4, 9 / 10), (3, 4 / 5)]) (1 / 2),
       CropMasks (sample [(4, 9 / 10), (3, 4 / 5)]) 1,
       OrderRegionsMarginalia (sample [(4, 9 / 10), (3, 4 / 5)])],
      Inr (None, [((3::nat, 4 / 5 :: real), 1::nat), ((4, 9 / 10), 1)], [3::nat, 4], [(3::nat, 4 / 5 :: real), (4, 9 / 10)])) \<and>
   (\<exists>img c rc pg ord.
      CropMasks c img \<in> set [Binarize (1::nat), Imread 1, SegModel 1,
       FilterOnPredThreshold (sample [(4, 9 / 10), (3, 4 / 5)]) (1 / 2),
       AlignMasksWithImage (sample [(4, 9 / 10), (3, 4 / 5)]) 1,
       RemoveOverlappingMasks (sample [(4, 9 / 10), (3, 4 / 5)]) (1 / 2),
       CropMasks (sample [(4, 9 / 10), (3, 4 / 5)]) 1,
       OrderRegionsMarginalia (sample [(4, 9 / 10), (3, 4 / 5)])] \<and>
      OrderRegionsMarginalia c \<in> set [Binarize (1::nat), Imread 1, SegModel 1,
       FilterOnPredThreshold (sample [(4, 9 / 10), (3, 4 / 5)]) (1 / 2),
       AlignMasksWithImage (sample [(4, 9 / 10), (3, 4 / 5)]) 1,
       RemoveOverlappingMasks (sample [(4, 9 / 10), (3, 4 / 5)]) (1 / 2),
       CropMasks (sample [(4, 9 / 10), (3, 4 / 5)]) 1,
       OrderRegionsMarginalia (sample [(4, 9 / 10), (3, 4 / 5)])] \<and>
      crop_masks (demo_collaborators False [(4, 9 / 10), (3, 4 / 5)]) c img = Inr (rc, pg) \<and>
      order_regions_marginalia (demo_collaborators False [(4, 9 / 10), (3, 4 / 5)]) c = Inr ord \<and>
      length [((3::nat, 4 / 5 :: real), 1::nat), ((4, 9 / 10), 1)] = length ord \<and> length [3::nat, 4] = length ord \<and>
      length [(3::nat, 4 / 5 :: real), (4, 9 / 10)] = length ord \<and>
      (\<forall>k<length ord.
         py_index rc (ord ! k) = Inr ([((3::nat, 4 / 5 :: real), 1::nat), ((4, 9 / 10), 1)] ! k) \<and>
         py_index pg (ord ! k) = Inr ([3::nat, 4] ! k) \<and>
         py_index (masks (pred_instances c)) (ord ! k) = Inr ([(3::nat, 4 / 5 :: real), (4, 9 / 10)] ! k)) \<and>
      (\<forall>crop_of polygon_of.
         rc = map crop_of (masks (pred_instances c)) \<and>
         pg = map polygon_of (masks (pred_instances c)) \<longrightarrow>
         [((3::nat, 4 / 5 :: real), 1::nat), ((4, 9 / 10), 1)] = map crop_of [(3::nat, 4 / 5 :: real), (4, 9 / 10)] \<and>
         [3::nat, 4] = map polygon_of [(3::nat, 4 / 5 :: real), (4, 9 / 10)]))"
proof -
  have run: "predict_regions (demo_collaborators False [(4, 9 / 10), (3, 4 / 5)]) 1 (1 / 2) (1 / 2) False =
     ([Binarize (1::nat), Imread 1, SegModel 1,
       FilterOnPredThreshold (sample [(4, 9 / 10), (3, 4 / 5)]) (1 / 2),
       AlignMasksWithImage (sample [(4, 9 / 10), (3, 4 / 5)]) 1,
       RemoveOverlappingMasks (sample [(4, 9 / 10), (3, 4 / 5)]) (1 / 2),
       CropMasks (sample [(4, 9 / 10), (3, 4 / 5)]) 1,
       OrderRegionsMarginalia (sample [(4, 9 / 10), (3, 4 / 5)])],
      Inr (None, [((3::nat, 4 / 5 :: real), 1::nat), ((4, 9 / 10), 1)], [3::nat, 4], [(3::nat, 4 / 5 :: real), (4, 9 / 10)]))"
    by (simp add: run_defs)
  from ordered_outputs_paired [OF run] run show ?thesis
    by (rule conjI [rotated])
qed

subsection \<open>The modelled components\<close>

lemma absorbed_pairs_resolve: "absorbed_pairs (OverlapResolver_resolve xs t) t = []"
proof (induction xs t rule: OverlapResolver_resolve.induct)
  case (1 xs t)
  show ?case
  proof (cases "absorbed_pairs xs t")
    case Nil
    then show ?thesis by (subst OverlapResolver_resolve.simps) simp
  next
    case (Cons p ps)
    then show ?thesis using "1.IH" by (subst OverlapResolver_resolve.simps) simp
  qed
qed

lemma no_absorbed_pairs:
  assumes "absorbed_pairs ys t = []" and "i < length ys" and "j < length ys" and "i \<noteq> j"
  shows "containment_ratio (ys ! i) (ys ! j) < t"
proof -
  have "(i, j) \<in> set (List.product [0..<length ys] [0..<length ys])"
    using assms by simp
  moreover have "(i, j) \<notin> set (absorbed_pairs ys t)"
    using assms by simp
  ultimately show ?thesis
    using assms by (auto simp: absorbed_pairs_def)
qed

lemma subseq_drop_index: "subseq (drop_index k xs) xs"
proof -
  have "subseq (drop (Suc k) xs) (drop k xs)"
  proof (cases "k < length xs")
    case True
    then have "drop k xs = xs ! k # drop (Suc k) xs"
      by (simp add: Cons_nth_drop_Suc)
    then show ?thesis
      using subseq_Cons' [of "xs ! k" "drop (Suc k) xs" "xs ! k # drop (Suc k) xs"] by simp
  next
    case False
    then show ?thesis by simp
  qed
  then have "subseq (take k xs @ drop (Suc k) xs) (take k xs @ drop k xs)"
    by (simp only: subseq_append')
  then show ?thesis by (simp add: drop_index_def)
qed

lemma subseq_resolve: "subseq (OverlapResolver_resolve xs t) xs"
proof (induction xs t rule: OverlapResolver_resolve.induct)
  case (1 xs t)
  show ?case
  proof (cases "absorbed_pairs xs t")
    case Nil
    then show ?thesis by (subst OverlapResolver_resolve.simps) simp
  next
    case (Cons p ps)
    with "1.IH" have "subseq (OverlapResolver_resolve (drop_index (victim xs t p) xs) t)
        (drop_index (victim xs t p) xs)"
      by simp
    then have "subseq (OverlapResolver_resolve (drop_index (victim xs t p) xs) t) xs"
      using subseq_drop_index subseq_order.order_trans by blast
    with Cons show ?thesis by (subst OverlapResolver_resolve.simps) simp
  qed
qed

lemma concat_group_bands: "concat (group_bands yc thr ks) = ks"
  by (induction ks) (auto split: list.splits)

lemma mset_concat_sort_each: "mset (concat (map (sort_key f) bs)) = mset (concat bs)"
  by (induction bs) auto

lemma mset_concat_sort_bands: "mset (concat (sort_key g bs)) = mset (concat bs)"
proof -
  have "mset (concat (sort_key g bs)) = sum_mset (image_mset mset (mset (sort_key g bs)))"
    by (simp add: mset_concat sum_mset_sum_list [symmetric])
  also have "\<dots> = sum_mset (image_mset mset (mset bs))" by simp
  also have "\<dots> = mset (concat bs)"
    by (simp add: mset_concat sum_mset_sum_list [symmetric])
  finally show ?thesis .
qed

lemma mset_order_lines_spec:
  "mset (order_lines_spec L instances factor) = mset [0..<length instances]"
  unfolding order_lines_spec_def Let_def
  by (simp only: mset_concat_sort_each mset_concat_sort_bands concat_group_bands mset_sort)

lemma mset_order_regions_marginalia_spec:
  "mset (order_regions_marginalia_spec L instances) = mset [0..<length instances]"
  unfolding order_regions_marginalia_spec_def Let_def
  by (simp del: mset_upt)

lemma permutation_of_upt:
  "mset ord = mset [0..<n] \<Longrightarrow> length ord = n \<and> distinct ord \<and> set ord = {0..<n}"
  by (metis atLeastLessThan_upt diff_zero distinct_upt length_upt mset_eq_imp_distinct_iff
      mset_eq_length mset_eq_setD)

lemma index_all_nat:
  "\<forall>k\<in>set ord. k < length ys \<Longrightarrow> index_all ys (map int ord) = Inr (map ((!) ys) ord)"
  by (induction ord) (auto simp: py_index_def)

lemma mset_reindex:
  "mset ord = mset [0..<length ys] \<Longrightarrow> mset (map ((!) ys) ord) = mset ys"
proof -
  assume "mset ord = mset [0..<length ys]"
  then have "mset (map ((!) ys) ord) = mset (map ((!) ys) [0..<length ys])"
    by (simp only: mset_map)
  then show ?thesis by (simp only: map_nth)
qed

lemma reindex_by_permutation:
  assumes "mset ord = mset [0..<n]" and "length ys = n"
  shows "\<exists>zs. index_all ys (map int ord) = Inr zs \<and> mset zs = mset ys"
proof -
  have "set ord = {0..<n}" using assms(1) permutation_of_upt by blast
  then have "\<forall>k\<in>set ord. k < length ys" using assms(2) by simp
  then have "index_all ys (map int ord) = Inr (map ((!) ys) ord)" by (rule index_all_nat)
  moreover have "mset (map ((!) ys) ord) = mset ys"
    using assms by (simp only: mset_reindex)
  ultimately show ?thesis by blast
qed

lemma banding_example: "order_lines_spec demo_layout three_lines (1 / 2) = [1, 0, 2]"
  by code_simp

lemma marginalia_example: "order_regions_marginalia_spec demo_layout three_regions = [2, 1, 0]"
  by code_simp

text \<open>
  C5. For a set of \<open>n\<close> instances, the index sequences of region mode and of line mode
  are permutations of \<open>0 .. n - 1\<close>: they have length \<open>n\<close>, hold no index twice and hold
  every index below \<open>n\<close>. Hence reading any sequence of \<open>n\<close> crops, polygons or masks at
  these indices, as the orchestrator does, succeeds and yields every entry exactly
  once.
\<close>

theorem ordering_is_permutation:
  "length (order_regions_marginalia_spec L instances) = length instances \<and>
   distinct (order_regions_marginalia_spec L instances) \<and>
   set (order_regions_marginalia_spec L instances) = {0..<length instances} \<and>
   length (order_lines_spec L instances factor) = length instances \<and>
   distinct (order_lines_spec L instances factor) \<and>
   set (order_lines_spec L instances factor) = {0..<length instances} \<and>
   (\<forall>ys. length ys = length instances \<longrightarrow>
      (\<exists>zs. index_all ys (map int (order_regions_marginalia_spec L instances)) = Inr zs \<and>
            mset zs = mset ys) \<and>
      (\<exists>zs. index_all ys (map int (order_lines_spec L instances factor)) = Inr zs \<and>
            mset zs = mset ys))"
proof -
  have p1: "mset (order_regions_marginalia_spec L instances) = mset [0..<length instances]"
    by (rule mset_order_regions_marginalia_spec)
  have p2: "mset (order_lines_spec L instances factor) = mset [0..<length instances]"
    by (rule mset_order_lines_spec)
  have "\<forall>ys. length ys = length instances \<longrightarrow>
      (\<exists>zs. index_all ys (map int (order_regions_marginalia_spec L instances)) = Inr zs \<and>
            mset zs = mset ys) \<and>
      (\<exists>zs. index_all ys (map int (order_lines_spec L instances factor)) = Inr zs \<and>
            mset zs = mset ys)"
    using reindex_by_permutation [OF p1] reindex_by_permutation [OF p2] by blast
  with permutation_of_upt [OF p1] permutation_of_upt [OF p2] show ?thesis
    by simp
qed

theorem ordering_is_permutation_witness:
  "length [''a'', ''b'', ''c''] = length three_lines \<and>
   order_lines_spec demo_layout three_lines (1 / 2) = [1, 0, 2] \<and>
   (\<exists>zs. index_all [''a'', ''b'', ''c''] (map int (order_lines_spec demo_layout three_lines (1 / 2))) =
           Inr zs \<and> mset zs = mset [''a'', ''b'', ''c''])"
proof -
  have l: "length [''a'', ''b'', ''c''] = length three_lines"
    by (simp add: three_lines_def)
  from ordering_is_permutation [of demo_layout three_lines "1 / 2"] l
  have "\<exists>zs. index_all [''a'', ''b'', ''c'']
        (map int (order_lines_spec demo_layout three_lines (1 / 2))) = Inr zs \<and>
      mset zs = mset [''a'', ''b'', ''c'']"
    by blast
  with l banding_example show ?thesis
    by blast
qed

text \<open>
  C6. In the output of the overlap resolver, the containment ratio of every ordered
  pair of survivors at different positions is below the threshold, in both directions.
\<close>

theorem containment_invariant:
  assumes "i < length (OverlapResolver_resolve xs t)"
    and "j < length (OverlapResolver_resolve xs t)" and "i \<noteq> j"
  shows "containment_ratio (OverlapResolver_resolve xs t ! i) (OverlapResolver_resolve xs t ! j) < t \<and>
         containment_ratio (OverlapResolver_resolve xs t ! j) (OverlapResolver_resolve xs t ! i) < t"
  using assms no_absorbed_pairs [OF absorbed_pairs_resolve, of i xs t j]
    no_absorbed_pairs [OF absorbed_pairs_resolve, of j xs t i]
  by simp

theorem containment_invariant_witness:
  "OverlapResolver_resolve nested (1 / 2) =
     [\<lparr>mask_of = {(0, 0), (0, 1)}, score = 4 / 5\<rparr>, \<lparr>mask_of = {(5, 5)}, score = 7 / 10\<rparr>] \<and>
   0 < length (OverlapResolver_resolve nested (1 / 2)) \<and>
   1 < length (OverlapResolver_resolve nested (1 / 2)) \<and>
   (0::nat) \<noteq> 1 \<and>
   containment_ratio (OverlapResolver_resolve nested (1 / 2) ! 0)
     (OverlapResolver_resolve nested (1 / 2) ! 1) < 1 / 2 \<and>
   containment_ratio (OverlapResolver_resolve nested (1 / 2) ! 1)
     (OverlapResolver_resolve nested (1 / 2) ! 0) < 1 / 2"
proof -
  have r: "OverlapResolver_resolve nested (1 / 2) =
     [\<lparr>mask_of = {(0, 0), (0, 1)}, score = 4 / 5\<rparr>, \<lparr>mask_of = {(5, 5)}, score = 7 / 10\<rparr>]"
    by code_simp
  have l0: "0 < length (OverlapResolver_resolve nested (1 / 2))"
    and l1: "1 < length (OverlapResolver_resolve nested (1 / 2))"
    by (simp_all add: r)
  have n: "(0::nat) \<noteq> 1"
    by simp
  from containment_invariant [OF l0 l1 n] r l0 l1 n show ?thesis
    by blast
qed

text \<open>
  C7. Resolving the output of the overlap resolver again, with the same threshold,
  returns it unchanged.
\<close>

theorem resolve_idempotent:
  "OverlapResolver_resolve (OverlapResolver_resolve xs t) t = OverlapResolver_resolve xs t"
  by (subst OverlapResolver_resolve.simps) (simp add: absorbed_pairs_resolve)

theorem resolve_idempotent_witness:
  "OverlapResolver_resolve (OverlapResolver_resolve nested (1 / 2)) (1 / 2) =
     OverlapResolver_resolve nested (1 / 2)"
  by (rule resolve_idempotent)

text \<open>
  C8. For thresholds \<open>t1 \<le> t2\<close> in \<open>[0,1]\<close> the filter succeeds at both, the output at
  \<open>t2\<close> is a subsequence of the output at \<open>t1\<close> and so no longer than it, and each
  output is a subsequence of the input holding exactly the instances whose score
  reaches the threshold, as often as the input holds them.
\<close>

theorem filter_monotone_stable:
  assumes "0 \<le> t1" and "t1 \<le> t2" and "t2 \<le> 1"
  shows "\<exists>ys1 ys2.
    MaskFilter_filter xs t1 = Inr ys1 \<and> MaskFilter_filter xs t2 = Inr ys2 \<and>
    length ys2 \<le> length ys1 \<and> subseq ys2 ys1 \<and>
    subseq ys1 xs \<and> mset ys1 = filter_mset (\<lambda>i. t1 \<le> score i) (mset xs) \<and>
    subseq ys2 xs \<and> mset ys2 = filter_mset (\<lambda>i. t2 \<le> score i) (mset xs)"
proof -
  let ?ys1 = "filter (\<lambda>i. t1 \<le> score i) xs" and ?ys2 = "filter (\<lambda>i. t2 \<le> score i) xs"
  have r1: "MaskFilter_filter xs t1 = Inr ?ys1" and r2: "MaskFilter_filter xs t2 = Inr ?ys2"
    using assms by (simp_all add: MaskFilter_filter_def)
  have "?ys2 = filter (\<lambda>i. t2 \<le> score i) ?ys1"
    using assms by (auto intro: filter_cong)
  then have s: "subseq ?ys2 ?ys1"
    by (metis subseq_filter_left)
  then have "length ?ys2 \<le> length ?ys1"
    by (rule list_emb_length)
  with r1 r2 s show ?thesis by simp
qed

theorem filter_monotone_stable_witness:
  "(0::real) \<le> 1 / 2 \<and> (1 / 2 :: real) \<le> 4 / 5 \<and> (4 / 5 :: real) \<le> 1 \<and>
   MaskFilter_filter scored (1 / 2) = Inr [pixel 0 0 (9 / 10), pixel 2 2 (3 / 5)] \<and>
   MaskFilter_filter scored (4 / 5) = Inr [pixel 0 0 (9 / 10)] \<and>
   (\<exists>ys1 ys2.
      MaskFilter_filter scored (1 / 2) = Inr ys1 \<and> MaskFilter_filter scored (4 / 5) = Inr ys2 \<and>
      length ys2 \<le> length ys1 \<and> subseq ys2 ys1 \<and>
      subseq ys1 scored \<and> mset ys1 = filter_mset (\<lambda>i. 1 / 2 \<le> score i) (mset scored) \<and>
      subseq ys2 scored \<and> mset ys2 = filter_mset (\<lambda>i. 4 / 5 \<le> score i) (mset scored))"
proof -
  have a: "(0::real) \<le> 1 / 2" and b: "(1 / 2 :: real) \<le> 4 / 5" and c: "(4 / 5 :: real) \<le> 1"
    by simp_all
  have e1: "MaskFilter_filter scored (1 / 2) = Inr [pixel 0 0 (9 / 10), pixel 2 2 (3 / 5)]"
    and e2: "MaskFilter_filter scored (4 / 5) = Inr [pixel 0 0 (9 / 10)]"
    by (simp_all add: MaskFilter_filter_def scored_def pixel_def)
  from filter_monotone_stable [OF a b c, of scored] a b c e1 e2 show ?thesis
    by blast
qed


subsection \<open>Transcription with another model\<close>

lemma attempt_Inr_iff: "attempt r f = Inr b \<longleftrightarrow> (\<exists>a. r = Inr a \<and> f a = Inr b)"
  by (cases r) (simp_all add: attempt_def)

text \<open>
  C10. Whatever the image, the model identifier and the behaviour of the transformers
  library, a call of \<^verbatim>\<open>transcribe_different_model\<close> that returns, returns the confidence
  \<open>1.0\<close>: the value does not depend on what the model generated. The call returns
  whenever loading, generation and decoding succeed and decoding yields at least one
  string, and the text it returns is then the first decoded string.
\<close>

theorem transcribe_different_model_confidence:
  "(\<forall>generated_text conf.
      transcribe_different_model T img name = Inr (generated_text, conf) \<longrightarrow> conf = 1) \<and>
   (\<forall>processor model pixel_values ids generated_text rest.
      load_for T img name = Inr (processor, model, pixel_values) \<longrightarrow>
      generate T model pixel_values = Inr ids \<longrightarrow>
      batch_decode T processor ids = Inr (generated_text # rest) \<longrightarrow>
      transcribe_different_model T img name = Inr (generated_text, 1))"
proof (intro conjI allI impI)
  fix generated_text conf
  assume "transcribe_different_model T img name = Inr (generated_text, conf)"
  then show "conf = 1"
    unfolding transcribe_different_model_def
    by (auto simp: attempt_Inr_iff split: prod.splits)
next
  fix processor model pixel_values ids generated_text rest
  assume "load_for T img name = Inr (processor, model, pixel_values)"
    and "generate T model pixel_values = Inr ids"
    and "batch_decode T processor ids = Inr (generated_text # rest)"
  then show "transcribe_different_model T img name = Inr (generated_text, 1)"
    by (simp add: transcribe_different_model_def attempt_def external_def py_index_def)
qed

theorem transcribe_different_model_confidence_witness:
  "load_for demo_transformers 7 ''microsoft/trocr-base-handwritten'' =
     Inr (''microsoft/trocr-base-handwritten'', ''microsoft/trocr-base-handwritten'', 7) \<and>
   generate demo_transformers ''microsoft/trocr-base-handwritten'' 7 = Inr 8 \<and>
   batch_decode demo_transformers ''microsoft/trocr-base-handwritten'' 8 = Inr [''Hej'', ''da''] \<and>
   transcribe_different_model demo_transformers 7 ''microsoft/trocr-base-handwritten'' =
     Inr (''Hej'', 1)"
proof -
  have l: "load_for demo_transformers 7 ''microsoft/trocr-base-handwritten'' =
     Inr (''microsoft/trocr-base-handwritten'', ''microsoft/trocr-base-handwritten'', 7)"
    by (simp add: load_for_def demo_transformers_def attempt_def external_def)
  have g: "generate demo_transformers ''microsoft/trocr-base-handwritten'' 7 = Inr 8"
    by (simp add: demo_transformers_def)
  have d: "batch_decode demo_transformers ''microsoft/trocr-base-handwritten'' 8 =
     Inr [''Hej'', ''da'']"
    by (simp add: demo_transformers_def)
  from transcribe_different_model_confidence
    [of demo_transformers 7 "''microsoft/trocr-base-handwritten''"] l g d
  have "transcribe_different_model demo_transformers 7 ''microsoft/trocr-base-handwritten'' =
     Inr (''Hej'', 1)"
    by blast
  with l g d show ?thesis by simp
qed

end
